theory Spec2Isabelle
  imports Complex_Main "HOL-Library.Sublist"
begin

section \<open>Shared Python values\<close>

text \<open>
  Python strings are modelled as \<open>string\<close>; one \<open>char\<close> stands for one code point below
  256. Exceptions are values; the payload is the exception's message.
  \<open>FileNotFoundError\<close>, \<open>FileExistsError\<close>, \<open>NotADirectoryError\<close>, \<open>IsADirectoryError\<close> and
  \<open>SameFileError\<close> are subclasses of \<open>OSError\<close> in Python; \<open>ValueError\<close> is not.
\<close>

datatype exn =
    ValueError string
  | FileNotFoundError string
  | FileExistsError string
  | NotADirectoryError string
  | IsADirectoryError string
  | SameFileError string
  | OSError string

fun is_OSError :: "exn \<Rightarrow> bool" where
  "is_OSError (ValueError m) = False"
| "is_OSError (FileNotFoundError m) = True"
| "is_OSError (FileExistsError m) = True"
| "is_OSError (NotADirectoryError m) = True"
| "is_OSError (IsADirectoryError m) = True"
| "is_OSError (SameFileError m) = True"
| "is_OSError (OSError m) = True"

fun exn_str :: "exn \<Rightarrow> string" where
  "exn_str (ValueError m) = m"
| "exn_str (FileNotFoundError m) = m"
| "exn_str (FileExistsError m) = m"
| "exn_str (NotADirectoryError m) = m"
| "exn_str (IsADirectoryError m) = m"
| "exn_str (SameFileError m) = m"
| "exn_str (OSError m) = m"

section \<open>Unit conversion library: math/converters.py\<close>

subsection \<open>Floating-point values\<close>

text \<open>
  A float64 is not-a-number, an infinity, the negative zero, or a finite number; \<open>Fin 0\<close>
  is the positive zero. Finite arithmetic is exact real arithmetic: rounding, overflow and
  underflow are not modelled. The special values follow IEEE 754 as numpy applies it with
  the floating-point warnings switched off.
\<close>

datatype fl = NaN | PInf | NInf | NZero | Fin real

text \<open>The comparison \<open>x <= 0\<close>; every ordering comparison with NaN is false.\<close>

fun fl_le_zero :: "fl \<Rightarrow> bool" where
  "fl_le_zero NaN = False"
| "fl_le_zero PInf = False"
| "fl_le_zero NInf = True"
| "fl_le_zero NZero = True"
| "fl_le_zero (Fin r) = (r \<le> 0)"

text \<open>The comparison \<open>x > 0\<close>.\<close>

fun fl_gt_zero :: "fl \<Rightarrow> bool" where
  "fl_gt_zero NaN = False"
| "fl_gt_zero PInf = True"
| "fl_gt_zero NInf = False"
| "fl_gt_zero NZero = False"
| "fl_gt_zero (Fin r) = (0 < r)"

text \<open>\<open>np.log10(x)\<close> under \<open>errstate(divide='ignore', invalid='ignore')\<close>.\<close>

fun fl_log10 :: "fl \<Rightarrow> fl" where
  "fl_log10 NaN = NaN"
| "fl_log10 PInf = PInf"
| "fl_log10 NInf = NaN"
| "fl_log10 NZero = NInf"
| "fl_log10 (Fin r) = (if r < 0 then NaN else if r = 0 then NInf else Fin (log 10 r))"

text \<open>\<open>k * x\<close> and \<open>x * k\<close> for a finite constant \<open>k > 0\<close> (10, 1e9, 1e-9 in the source).\<close>

fun fl_times :: "real \<Rightarrow> fl \<Rightarrow> fl" where
  "fl_times k NaN = NaN"
| "fl_times k PInf = PInf"
| "fl_times k NInf = NInf"
| "fl_times k NZero = NZero"
| "fl_times k (Fin r) = Fin (k * r)"

text \<open>\<open>x / k\<close> for a finite constant \<open>k > 0\<close> (10.0 and 1e9 in the source).\<close>

fun fl_divide_by :: "fl \<Rightarrow> real \<Rightarrow> fl" where
  "fl_divide_by NaN k = NaN"
| "fl_divide_by PInf k = PInf"
| "fl_divide_by NInf k = NInf"
| "fl_divide_by NZero k = NZero"
| "fl_divide_by (Fin r) k = Fin (r / k)"

text \<open>\<open>x + k\<close> for a finite constant \<open>k \<noteq> 0\<close> (30.0 and, for \<open>x - 30.0\<close>, -30 in the source).\<close>

fun fl_plus :: "fl \<Rightarrow> real \<Rightarrow> fl" where
  "fl_plus NaN k = NaN"
| "fl_plus PInf k = PInf"
| "fl_plus NInf k = NInf"
| "fl_plus NZero k = Fin k"
| "fl_plus (Fin r) k = Fin (r + k)"

text \<open>\<open>10 ** x\<close>.\<close>

fun fl_pow10 :: "fl \<Rightarrow> fl" where
  "fl_pow10 NaN = NaN"
| "fl_pow10 PInf = PInf"
| "fl_pow10 NInf = Fin 0"
| "fl_pow10 NZero = Fin 1"
| "fl_pow10 (Fin r) = Fin (10 powr r)"

text \<open>\<open>k / x\<close> for a finite constant \<open>k > 0\<close>, under \<open>errstate(divide='ignore')\<close>.\<close>

fun fl_rdivide :: "real \<Rightarrow> fl \<Rightarrow> fl" where
  "fl_rdivide k NaN = NaN"
| "fl_rdivide k PInf = Fin 0"
| "fl_rdivide k NInf = NZero"
| "fl_rdivide k NZero = NInf"
| "fl_rdivide k (Fin r) = (if r = 0 then PInf else Fin (k / r))"

text \<open>\<open>scipy.constants.c\<close>, the speed of light in vacuum in m/s (exact in the SI).\<close>

definition SPEED_OF_LIGHT :: real where
  "SPEED_OF_LIGHT = 299792458"

subsection \<open>Arrays and array-likes\<close>

text \<open>
  An \<open>np.ndarray\<close> of dtype float: its shape and its elements in row-major order. A
  zero-dimensional array has the shape \<open>[]\<close> and one element.
\<close>

record ndarray =
  shape :: "nat list"
  data :: "fl list"

definition ndim :: "ndarray \<Rightarrow> nat" where
  "ndim a = length (shape a)"


text \<open>
  \<open>ArrayLike = Union[float, int, List[float], np.ndarray]\<close>, and what the functions
  return: a Python float, a numpy float64 scalar, or an array. An int argument is
  converted by \<open>dtype=float\<close> and is covered by \<open>PyFloat\<close>.
\<close>

datatype pyvalue =
    PyFloat fl
  | NpFloat64 fl
  | PyList "fl list"
  | NdArray ndarray

datatype ErrorMode = Raise | Warn | Ignore

datatype warning = RuntimeWarning string

text \<open>\<open>np.asanyarray(value, dtype=float)\<close>.\<close>

fun asanyarray :: "pyvalue \<Rightarrow> ndarray" where
  "asanyarray (PyFloat x) = \<lparr>shape = [], data = [x]\<rparr>"
| "asanyarray (NpFloat64 x) = \<lparr>shape = [], data = [x]\<rparr>"
| "asanyarray (PyList xs) = \<lparr>shape = [length xs], data = xs\<rparr>"
| "asanyarray (NdArray a) = a"

text \<open>An element-wise operation keeps the shape.\<close>

definition np_map :: "(fl \<Rightarrow> fl) \<Rightarrow> ndarray \<Rightarrow> ndarray" where
  "np_map f a = a\<lparr>data := map f (data a)\<rparr>"

text \<open>\<open>np.any(value <= 0)\<close>.\<close>

definition np_any_le_zero :: "ndarray \<Rightarrow> bool" where
  "np_any_le_zero a = list_ex fl_le_zero (data a)"

text \<open>\<open>ndarray.item()\<close>: the one element as a Python float; numpy raises for any other size.\<close>

definition item :: "ndarray \<Rightarrow> exn + fl" where
  "item a =
     (case data a of
        [x] \<Rightarrow> Inr x
      | _ \<Rightarrow> Inl (ValueError ''can only convert an array of size 1 to a Python scalar''))"

text \<open>The closing line of ten functions: \<open>result.item() if result.ndim == 0 else result\<close>.\<close>

definition item_if_0d :: "ndarray \<Rightarrow> exn + pyvalue" where
  "item_if_0d result =
     (if ndim result = 0
      then (case item result of Inl e \<Rightarrow> Inl e | Inr x \<Rightarrow> Inr (PyFloat x))
      else Inr (NdArray result))"


subsection \<open>The shared validation step\<close>

text \<open>
  The message of \<open>_validate_positive\<close>; \<open>CHR 0xE1\<close> is the letter a with acute accent.
\<close>

definition invalid_msg :: "string \<Rightarrow> string" where
  "invalid_msg context =
     ''Entrada inv'' @ [CHR 0xE1] @ ''lida em '' @ [CHR 0x27] @ context @ [CHR 0x27]
       @ '': valores devem ser estritamente positivos (> 0). ''
       @ ''Encontrados valores <= 0 ou NaN.''"

text \<open>
  \<open>_validate_positive\<close> returns nothing; the model returns the warnings it emits, or the
  exception it raises.
\<close>

definition validate_positive :: "ndarray \<Rightarrow> ErrorMode \<Rightarrow> string \<Rightarrow> exn + warning list" where
  "validate_positive value mode context =
     (if mode = Ignore then Inr []
      else if np_any_le_zero value then
        (let msg = invalid_msg context in
         if mode = Raise then Inl (ValueError msg)
         else if mode = Warn then Inr [RuntimeWarning msg]
         else Inr [])
      else Inr [])"

subsection \<open>The conversions\<close>

text \<open>
  A checked conversion returns the exception it raises, or its value with the warnings
  emitted on the way.
\<close>

definition lin2db :: "pyvalue \<Rightarrow> ErrorMode \<Rightarrow> exn + (pyvalue \<times> warning list)" where
  "lin2db value mode =
     (let value = asanyarray value in
      case validate_positive value mode ''lin2db'' of
        Inl e \<Rightarrow> Inl e
      | Inr ws \<Rightarrow>
          (let result = np_map (\<lambda>x. fl_times 10 (fl_log10 x)) value in
           case item_if_0d result of Inl e \<Rightarrow> Inl e | Inr r \<Rightarrow> Inr (r, ws)))"

definition db2lin :: "pyvalue \<Rightarrow> exn + pyvalue" where
  "db2lin value_db =
     (let value_db = asanyarray value_db;
          result = np_map (\<lambda>x. fl_pow10 (fl_divide_by x 10)) value_db
      in item_if_0d result)"

definition watt2dbm :: "pyvalue \<Rightarrow> ErrorMode \<Rightarrow> exn + (pyvalue \<times> warning list)" where
  "watt2dbm power_watt mode =
     (let value = asanyarray power_watt in
      case validate_positive value mode ''watt2dbm'' of
        Inl e \<Rightarrow> Inl e
      | Inr ws \<Rightarrow>
          (let result = np_map (\<lambda>x. fl_plus (fl_times 10 (fl_log10 x)) 30) value in
           case item_if_0d result of Inl e \<Rightarrow> Inl e | Inr r \<Rightarrow> Inr (r, ws)))"

definition dbm2watt :: "pyvalue \<Rightarrow> exn + pyvalue" where
  "dbm2watt power_dbm =
     (let value_db = asanyarray power_dbm;
          result = np_map (\<lambda>x. fl_pow10 (fl_divide_by (fl_plus x (- 30)) 10)) value_db
      in item_if_0d result)"

definition watt2db :: "pyvalue \<Rightarrow> ErrorMode \<Rightarrow> exn + (pyvalue \<times> warning list)" where
  "watt2db power_watt mode = lin2db power_watt mode"

definition db2watt :: "pyvalue \<Rightarrow> exn + pyvalue" where
  "db2watt value_db = db2lin value_db"

definition freq_Hz_to_wavelength_m :: "pyvalue \<Rightarrow> ErrorMode \<Rightarrow> exn + (pyvalue \<times> warning list)" where
  "freq_Hz_to_wavelength_m freq_Hz mode =
     (let freq = asanyarray freq_Hz in
      case validate_positive freq mode ''freq_Hz_to_wavelength_m'' of
        Inl e \<Rightarrow> Inl e
      | Inr ws \<Rightarrow>
          (let result = np_map (\<lambda>x. fl_rdivide SPEED_OF_LIGHT x) freq in
           case item_if_0d result of Inl e \<Rightarrow> Inl e | Inr r \<Rightarrow> Inr (r, ws)))"

definition wavelength_m_to_freq_Hz :: "pyvalue \<Rightarrow> ErrorMode \<Rightarrow> exn + (pyvalue \<times> warning list)" where
  "wavelength_m_to_freq_Hz wavelength_m mode =
     (let wl = asanyarray wavelength_m in
      case validate_positive wl mode ''wavelength_m_to_freq_Hz'' of
        Inl e \<Rightarrow> Inl e
      | Inr ws \<Rightarrow>
          (let result = np_map (\<lambda>x. fl_rdivide SPEED_OF_LIGHT x) wl in
           case item_if_0d result of Inl e \<Rightarrow> Inl e | Inr r \<Rightarrow> Inr (r, ws)))"

definition wavelength_nm_to_freq_Hz :: "pyvalue \<Rightarrow> ErrorMode \<Rightarrow> exn + (pyvalue \<times> warning list)" where
  "wavelength_nm_to_freq_Hz wavelength_nm mode =
     (let wl_nm = asanyarray wavelength_nm in
      case validate_positive wl_nm mode ''wavelength_nm_to_freq_Hz'' of
        Inl e \<Rightarrow> Inl e
      | Inr ws \<Rightarrow>
          (let result = np_map (\<lambda>x. fl_rdivide SPEED_OF_LIGHT (fl_times (1 / 10 ^ 9) x)) wl_nm in
           case item_if_0d result of Inl e \<Rightarrow> Inl e | Inr r \<Rightarrow> Inr (r, ws)))"

definition freq_Hz_to_wavelength_nm :: "pyvalue \<Rightarrow> ErrorMode \<Rightarrow> exn + (pyvalue \<times> warning list)" where
  "freq_Hz_to_wavelength_nm freq_Hz mode =
     (let freq = asanyarray freq_Hz in
      case validate_positive freq mode ''freq_Hz_to_wavelength_nm'' of
        Inl e \<Rightarrow> Inl e
      | Inr ws \<Rightarrow>
          (let result = np_map (\<lambda>x. fl_times (10 ^ 9) (fl_rdivide SPEED_OF_LIGHT x)) freq in
           case item_if_0d result of Inl e \<Rightarrow> Inl e | Inr r \<Rightarrow> Inr (r, ws)))"



section \<open>Experiment folders: io/folders.py\<close>

subsection \<open>String methods\<close>

text \<open>
  \<open>str.upper\<close> and \<open>str.lower\<close> on one character, for the ASCII letters; every other
  character is left as it is. Status labels are taken to be ASCII text: the case mapping
  of the other code points is not modelled.
\<close>

definition is_ascii :: "string \<Rightarrow> bool" where
  "is_ascii s = list_all (\<lambda>c. (of_char c :: nat) < 128) s"

definition upper_char :: "char \<Rightarrow> char" where
  "upper_char c =
     (let n = (of_char c :: nat) in if 97 \<le> n \<and> n \<le> 122 then char_of (n - 32) else c)"

definition lower_char :: "char \<Rightarrow> char" where
  "lower_char c =
     (let n = (of_char c :: nat) in if 65 \<le> n \<and> n \<le> 90 then char_of (n + 32) else c)"

text \<open>\<open>str.lower()\<close>.\<close>

definition lower :: "string \<Rightarrow> string" where
  "lower s = map lower_char s"

text \<open>\<open>str.capitalize()\<close>: the first character upper case, the rest lower case.\<close>

fun capitalize :: "string \<Rightarrow> string" where
  "capitalize [] = []"
| "capitalize (c # cs) = upper_char c # map lower_char cs"


subsection \<open>Path names (posixpath)\<close>

text \<open>\<open>os.path.isabs(p)\<close>.\<close>

fun isabs :: "string \<Rightarrow> bool" where
  "isabs [] = False"
| "isabs (c # cs) = (c = CHR ''/'')"

text \<open>\<open>os.path.join(a, b)\<close>.\<close>

definition join :: "string \<Rightarrow> string \<Rightarrow> string" where
  "join a b =
     (if isabs b then b
      else if a = [] \<or> last a = CHR ''/'' then a @ b
      else a @ ''/'' @ b)"


text \<open>\<open>p.split('/')\<close>.\<close>

fun split_sep :: "string \<Rightarrow> string list" where
  "split_sep [] = [[]]"
| "split_sep (c # cs) =
     (if c = CHR ''/'' then [] # split_sep cs
      else (case split_sep cs of [] \<Rightarrow> [[c]] | x # xs \<Rightarrow> (c # x) # xs))"

text \<open>
  Walking the components of a path name from a directory: empty components and \<open>.\<close> stay
  where they are, \<open>..\<close> goes up (there are no symbolic links in the model).
\<close>

fun walk :: "string list \<Rightarrow> string list \<Rightarrow> string list" where
  "walk dir [] = dir"
| "walk dir (c # cs) =
     (if c = [] \<or> c = ''.'' then walk dir cs
      else if c = ''..'' then walk (butlast dir) cs
      else walk (dir @ [c]) cs)"

subsection \<open>The file system and the console\<close>

text \<open>
  What the process acts on: its working directory, the files and directories that exist,
  each under the list of the names that lead to it from the root, and the lines printed
  so far. The root directory always exists. Permissions, links and partial writes are not
  modelled.
\<close>

datatype node = File string | Dir

record world =
  cwd :: "string list"
  nodes :: "(string list \<times> node) list"
  stdout :: "string list"

definition resolve :: "world \<Rightarrow> string \<Rightarrow> string list" where
  "resolve w p = walk (if isabs p then [] else cwd w) (split_sep p)"

definition lookup :: "world \<Rightarrow> string list \<Rightarrow> node option" where
  "lookup w q = (if q = [] then Some Dir else map_of (nodes w) q)"

definition is_dir :: "world \<Rightarrow> string \<Rightarrow> bool" where
  "is_dir w p = (p \<noteq> [] \<and> lookup w (resolve w p) = Some Dir)"

definition read_file :: "world \<Rightarrow> string \<Rightarrow> string option" where
  "read_file w p =
     (if p = [] then None
      else case lookup w (resolve w p) of Some (File c) \<Rightarrow> Some c | _ \<Rightarrow> None)"


definition has_children :: "world \<Rightarrow> string list \<Rightarrow> bool" where
  "has_children w q = list_ex (\<lambda>(k, n). strict_prefix q k) (nodes w)"

definition set_node :: "string list \<Rightarrow> node \<Rightarrow> (string list \<times> node) list \<Rightarrow> (string list \<times> node) list" where
  "set_node q n ns = (q, n) # filter (\<lambda>(k, m). k \<noteq> q) ns"

text \<open>
  \<open>open(p, 'w', encoding='utf-8')\<close> followed by \<open>f.write(content)\<close>: the file is created
  or replaced; the directory that holds it must exist.
\<close>

definition open_write :: "world \<Rightarrow> string \<Rightarrow> string \<Rightarrow> exn + world" where
  "open_write w p content =
     (if p = [] then Inl (FileNotFoundError p)
      else
        let q = resolve w p in
        case lookup w q of
          Some Dir \<Rightarrow> Inl (IsADirectoryError p)
        | _ \<Rightarrow>
            (case lookup w (butlast q) of
               None \<Rightarrow> Inl (FileNotFoundError p)
             | Some (File c) \<Rightarrow> Inl (NotADirectoryError p)
             | Some Dir \<Rightarrow> Inr (w\<lparr>nodes := set_node q (File content) (nodes w)\<rparr>)))"

text \<open>Moving the node at \<open>s\<close>, with all below it, to \<open>d\<close>; what was at \<open>d\<close> is replaced.\<close>

definition move :: "world \<Rightarrow> string list \<Rightarrow> string list \<Rightarrow> world" where
  "move w s d =
     w\<lparr>nodes :=
         map (\<lambda>(k, n). (d @ drop (length s) k, n)) (filter (\<lambda>(k, n). prefix s k) (nodes w))
         @ filter (\<lambda>(k, n). \<not> prefix s k \<and> \<not> prefix d k) (nodes w)\<rparr>"

text \<open>
  \<open>os.rename(src, dst)\<close> on a POSIX system: the source must exist, the directory that is
  to hold the destination must exist, a directory replaces only an empty directory and a
  file replaces only a file, and a directory does not move into itself. Every failure is
  an \<open>OSError\<close>. Path names are taken to be free of NUL characters, which Python
  rejects before the system call.
\<close>

definition os_rename :: "world \<Rightarrow> string \<Rightarrow> string \<Rightarrow> exn + world" where
  "os_rename w src dst =
     (if src = [] \<or> dst = [] then Inl (FileNotFoundError (src @ '' -> '' @ dst))
      else
        let s = resolve w src; d = resolve w dst in
        case lookup w s of
          None \<Rightarrow> Inl (FileNotFoundError (src @ '' -> '' @ dst))
        | Some ns \<Rightarrow>
            if s = d then Inr w
            else if prefix s d then Inl (OSError (src @ '' -> '' @ dst))
            else
              (case lookup w (butlast d) of
                 None \<Rightarrow> Inl (FileNotFoundError (src @ '' -> '' @ dst))
               | Some (File c) \<Rightarrow> Inl (NotADirectoryError (src @ '' -> '' @ dst))
               | Some Dir \<Rightarrow>
                   (case (ns, lookup w d) of
                      (Dir, Some (File c)) \<Rightarrow> Inl (NotADirectoryError (src @ '' -> '' @ dst))
                    | (Dir, Some Dir) \<Rightarrow>
                        if has_children w d then Inl (OSError (src @ '' -> '' @ dst))
                        else Inr (move w s d)
                    | (File c, Some Dir) \<Rightarrow> Inl (IsADirectoryError (src @ '' -> '' @ dst))
                    | _ \<Rightarrow> Inr (move w s d))))"




subsection \<open>class ExperimentFolder\<close>

record ExperimentFolder =
  timestamp :: string
  folder_name :: string
  path :: string
  finalized :: bool


definition get_folder_name :: "ExperimentFolder \<Rightarrow> string" where
  "get_folder_name self = folder_name self"

text \<open>\<open>get_path(filename)\<close>; the default of \<open>filename\<close> is the empty string.\<close>

definition get_path :: "ExperimentFolder \<Rightarrow> string \<Rightarrow> string" where
  "get_path self filename = join (path self) filename"


definition save_text :: "ExperimentFolder \<Rightarrow> string \<Rightarrow> string \<Rightarrow> world \<Rightarrow> exn + world" where
  "save_text self filename content w = open_write w (get_path self filename) content"

text \<open>
  \<open>finish(status, info_msg)\<close>, with the defaults \<open>success\<close> and the empty message. The
  result is the exception that leaves the method, or the entity and the world after it.
  Only an \<open>OSError\<close> of the rename is caught.
\<close>

definition log_name :: "string \<Rightarrow> string" where
  "log_name status = (if lower status = ''success'' then ''Success.txt'' else ''Error.txt'')"

fun finish :: "string \<Rightarrow> string \<Rightarrow> ExperimentFolder \<times> world \<Rightarrow> exn + (ExperimentFolder \<times> world)" where
  "finish status info_msg (self, w) =
     (if finalized self then Inr (self, w)
      else
        let suffix = ''_'' @ capitalize status;
            new_path = path self @ suffix
        in (case (if info_msg \<noteq> [] then save_text self (log_name status) info_msg w else Inr w) of
              Inl e \<Rightarrow> Inl e
            | Inr w1 \<Rightarrow>
                (case os_rename w1 (path self) new_path of
                   Inr w2 \<Rightarrow> Inr (self\<lparr>path := new_path, finalized := True\<rparr>, w2)
                 | Inl e \<Rightarrow>
                     if is_OSError e
                     then Inr (self, w1\<lparr>stdout := stdout w1
                                 @ [''Erro ao renomear pasta de experimento: '' @ exn_str e]\<rparr>)
                     else Inl e)))"

text \<open>\<open>__str__\<close>.\<close>

definition str :: "ExperimentFolder \<Rightarrow> string" where
  "str self = ''ExperimentFolder('' @ path self @ '')''"

section \<open>Notions used to state the properties\<close>





text \<open>
  The suffix as the specification words it: an underscore and the status label with its
  first character in upper case and the rest as given.
\<close>

fun spec_suffix :: "string \<Rightarrow> string" where
  "spec_suffix [] = ''_''"
| "spec_suffix (c # cs) = ''_'' @ upper_char c # cs"

text \<open>The message step of \<open>finish\<close>: the status file is written when there is a message.\<close>

definition write_status :: "ExperimentFolder \<Rightarrow> string \<Rightarrow> string \<Rightarrow> world \<Rightarrow> exn + world" where
  "write_status self status info_msg w =
     (if info_msg \<noteq> [] then save_text self (log_name status) info_msg w else Inr w)"

text \<open>The line that \<open>finish\<close> prints when the rename fails with \<open>e\<close>.\<close>

definition rename_error_line :: "exn \<Rightarrow> string" where
  "rename_error_line e = ''Erro ao renomear pasta de experimento: '' @ exn_str e"


definition example_folder :: ExperimentFolder where
  "example_folder =
     \<lparr>timestamp = ''2024-01-01_12-00-00'', folder_name = ''2024-01-01_12-00-00_sim'',
      path = ''/results/2024-01-01_12-00-00_sim'', finalized = False\<rparr>"

definition example_started :: world where
  "example_started =
     \<lparr>cwd = [''home''],
      nodes = [([''home''], Dir), ([''results''], Dir),
               ([''results'', ''2024-01-01_12-00-00_sim''], Dir)],
      stdout = []\<rparr>"

text \<open>The same, with a file in a directory that already has the name the run would get.\<close>

definition example_blocked :: world where
  "example_blocked =
     \<lparr>cwd = [''home''],
      nodes = [([''home''], Dir), ([''results''], Dir),
               ([''results'', ''2024-01-01_12-00-00_sim''], Dir),
               ([''results'', ''2024-01-01_12-00-00_sim_Success''], Dir),
               ([''results'', ''2024-01-01_12-00-00_sim_Success'', ''old.txt''], File ''x'')],
      stdout = []\<rparr>"

text \<open>
  The example after a successful \<open>finish\<close> with the message \<open>done\<close>, and the blocked
  example after a \<open>finish\<close> whose rename failed.
\<close>

definition example_done :: ExperimentFolder where
  "example_done =
     \<lparr>timestamp = ''2024-01-01_12-00-00'', folder_name = ''2024-01-01_12-00-00_sim'',
      path = ''/results/2024-01-01_12-00-00_sim_Success'', finalized = True\<rparr>"

definition example_finished :: world where
  "example_finished =
     \<lparr>cwd = [''home''],
      nodes = [([''results'', ''2024-01-01_12-00-00_sim_Success'', ''Success.txt''], File ''done''),
               ([''results'', ''2024-01-01_12-00-00_sim_Success''], Dir),
               ([''home''], Dir), ([''results''], Dir)],
      stdout = []\<rparr>"

definition example_logged :: world where
  "example_logged =
     example_blocked\<lparr>stdout :=
       [''Erro ao renomear pasta de experimento: ''
          @ ''/results/2024-01-01_12-00-00_sim -> /results/2024-01-01_12-00-00_sim_Success'']\<rparr>"

section \<open>Properties of the conversions\<close>


















text \<open>
  C8. For every argument and every mode, \<open>watt2db\<close> returns, raises and warns as
  \<open>lin2db\<close> does (with the same message, which names \<open>lin2db\<close>), and \<open>db2watt\<close>
  returns what \<open>db2lin\<close> returns.
\<close>

theorem watt2db_is_lin2db:
  "watt2db v mode = lin2db v mode \<and> db2watt v = db2lin v"
  by (simp add: watt2db_def db2watt_def)

text \<open>
  C1. The claim is that a not-a-number argument fails under mode \<open>Raise\<close>. The code
  tests \<open>value <= 0\<close>, which is false for NaN: each of the seven checked functions
  returns NaN, without an exception and without a warning.
\<close>

theorem nan_passes_validation:
  "lin2db (PyFloat NaN) Raise = Inr (PyFloat NaN, [])
   \<and> watt2dbm (PyFloat NaN) Raise = Inr (PyFloat NaN, [])
   \<and> watt2db (PyFloat NaN) Raise = Inr (PyFloat NaN, [])
   \<and> freq_Hz_to_wavelength_m (PyFloat NaN) Raise = Inr (PyFloat NaN, [])
   \<and> wavelength_m_to_freq_Hz (PyFloat NaN) Raise = Inr (PyFloat NaN, [])
   \<and> wavelength_nm_to_freq_Hz (PyFloat NaN) Raise = Inr (PyFloat NaN, [])
   \<and> freq_Hz_to_wavelength_nm (PyFloat NaN) Raise = Inr (PyFloat NaN, [])"
  by (simp add: lin2db_def watt2dbm_def watt2db_def freq_Hz_to_wavelength_m_def
      wavelength_m_to_freq_Hz_def wavelength_nm_to_freq_Hz_def freq_Hz_to_wavelength_nm_def
      validate_positive_def np_any_le_zero_def np_map_def item_if_0d_def ndim_def item_def)

lemma lin2db_pos:
  "fl_gt_zero x \<Longrightarrow> lin2db (PyFloat x) mode = Inr (PyFloat (fl_times 10 (fl_log10 x)), [])"
  by (cases x) (auto simp: Let_def lin2db_def validate_positive_def np_any_le_zero_def np_map_def
      item_if_0d_def ndim_def item_def)

lemma watt2dbm_pos:
  "fl_gt_zero x \<Longrightarrow> watt2dbm (PyFloat x) mode = Inr (PyFloat (fl_plus (fl_times 10 (fl_log10 x)) 30), [])"
  by (cases x) (auto simp: Let_def watt2dbm_def validate_positive_def np_any_le_zero_def np_map_def
      item_if_0d_def ndim_def item_def)

lemma db2lin_scalar: "db2lin (PyFloat y) = Inr (PyFloat (fl_pow10 (fl_divide_by y 10)))"
  by (simp add: db2lin_def np_map_def item_if_0d_def ndim_def item_def)

lemma dbm2watt_scalar: "dbm2watt (PyFloat y) = Inr (PyFloat (fl_pow10 (fl_divide_by (fl_plus y (- 30)) 10)))"
  by (simp add: dbm2watt_def np_map_def item_if_0d_def ndim_def item_def)

lemma db_inverse: "fl_gt_zero x \<Longrightarrow> fl_pow10 (fl_divide_by (fl_times 10 (fl_log10 x)) 10) = x"
  by (cases x) auto

lemma dbm_inverse:
  "fl_gt_zero x \<Longrightarrow> fl_pow10 (fl_divide_by (fl_plus (fl_plus (fl_times 10 (fl_log10 x)) 30) (- 30)) 10) = x"
  by (cases x) auto

text \<open>
  In exact arithmetic the logarithmic conversions are inverse to each other on every
  argument greater than zero, the positive infinity included.
\<close>

lemma log_round_trip:
  assumes "fl_gt_zero x"
  shows "(\<exists>y. lin2db (PyFloat x) mode = Inr (PyFloat y, []) \<and> db2lin (PyFloat y) = Inr (PyFloat x))
    \<and> (\<exists>y. watt2dbm (PyFloat x) mode = Inr (PyFloat y, []) \<and> dbm2watt (PyFloat y) = Inr (PyFloat x))"
  using assms
  by (simp add: lin2db_pos watt2dbm_pos db2lin_scalar dbm2watt_scalar db_inverse dbm_inverse)

lemma log_round_trip_example:
  "fl_gt_zero (Fin 100)
   \<and> (\<exists>y. lin2db (PyFloat (Fin 100)) Raise = Inr (PyFloat y, []) \<and> db2lin (PyFloat y) = Inr (PyFloat (Fin 100)))
   \<and> (\<exists>y. watt2dbm (PyFloat (Fin 100)) Raise = Inr (PyFloat y, []) \<and> dbm2watt (PyFloat y) = Inr (PyFloat (Fin 100)))"
proof -
  have pos: "fl_gt_zero (Fin 100)" by simp
  show ?thesis
    using pos log_round_trip [OF pos, of Raise] by blast
qed

section \<open>Properties of the experiment folder\<close>

lemma os_rename_OSError: "os_rename w a b = Inl e \<Longrightarrow> is_OSError e"
  by (auto simp: os_rename_def Let_def split: if_splits option.splits node.splits prod.splits)

lemma open_write_frame: "open_write w p c = Inr w' \<Longrightarrow> stdout w' = stdout w \<and> cwd w' = cwd w"
  by (auto simp: open_write_def Let_def split: if_splits option.splits node.splits)

lemma write_status_frame:
  "write_status self status info_msg w = Inr w' \<Longrightarrow> stdout w' = stdout w \<and> cwd w' = cwd w"
  by (auto simp: write_status_def save_text_def dest: open_write_frame split: if_splits)

lemma finish_unfinalized:
  assumes "\<not> finalized self"
  shows "finish status info_msg (self, w) =
    (case write_status self status info_msg w of
       Inl e \<Rightarrow> Inl e
     | Inr w1 \<Rightarrow>
         (case os_rename w1 (path self) (path self @ ''_'' @ capitalize status) of
            Inr w2 \<Rightarrow> Inr (self\<lparr>path := path self @ ''_'' @ capitalize status, finalized := True\<rparr>, w2)
          | Inl e \<Rightarrow> Inr (self, w1\<lparr>stdout := stdout w1 @ [rename_error_line e]\<rparr>)))"
  using assms
  by (auto simp: write_status_def rename_error_line_def Let_def dest: os_rename_OSError
      split: sum.splits)

text \<open>From here on \<open>finish\<close> is used through the two lemmas above and below.\<close>

lemma finish_finalized: "finalized self \<Longrightarrow> finish status info_msg (self, w) = Inr (self, w)"
  by simp

declare finish.simps [simp del]


text \<open>
  C4. Once a \<open>finish\<close> has returned with the entity finalized, every later \<open>finish\<close>,
  whatever its status and message, returns the same entity and the same world: the path, the
  directory and its contents are those the first call left.
\<close>

theorem finish_twice:
  assumes "finish s1 m1 (self, w) = Inr (self1, w1)" and "finalized self1"
  shows "finish s2 m2 (self1, w1) = Inr (self1, w1)"
  using assms(2) by (rule finish_finalized)

lemma finish_not_noop:
  assumes "\<not> finalized self"
  shows "finish status info_msg (self, w) \<noteq> Inr (self, w)"
proof (cases "write_status self status info_msg w")
  case (Inl e)
  then show ?thesis using assms by (simp add: finish_unfinalized)
next
  case (Inr w1)
  note w1 = this
  show ?thesis
  proof (cases "os_rename w1 (path self) (path self @ ''_'' @ capitalize status)")
    case (Inl e)
    have "stdout (w1\<lparr>stdout := stdout w1 @ [rename_error_line e]\<rparr>) \<noteq> stdout w"
      using write_status_frame [OF w1] by simp
    then have "w1\<lparr>stdout := stdout w1 @ [rename_error_line e]\<rparr> \<noteq> w"
      by blast
    then show ?thesis
      using assms w1 Inl by (simp add: finish_unfinalized)
  next
    case (Inr w2)
    have "finalized (self\<lparr>path := path self @ ''_'' @ capitalize status, finalized := True\<rparr>)
        \<noteq> finalized self"
      using assms by simp
    then have "self\<lparr>path := path self @ ''_'' @ capitalize status, finalized := True\<rparr> \<noteq> self"
      by metis
    then show ?thesis
      using assms w1 Inr by (simp add: finish_unfinalized)
  qed
qed

lemma finish_keeps_unfinalized:
  assumes "finish s m (self, w) = Inr (self1, w1)" and "\<not> finalized self1"
  shows "self1 = self \<and> \<not> finalized self"
proof (cases "finalized self")
  case True
  then show ?thesis using assms by (simp add: finish_finalized)
next
  case False
  then show ?thesis
    using assms by (auto simp: finish_unfinalized split: sum.splits)
qed

lemma map_of_set_node: "map_of (set_node q n ns) q = Some n"
  by (simp add: set_node_def)

lemma map_of_filter_other: "k \<noteq> q \<Longrightarrow> map_of (filter (\<lambda>(k', m). k' \<noteq> q) ns) k = map_of ns k"
  by (induction ns) auto

lemma open_write_read:
  assumes "open_write w p c = Inr w'"
  shows "read_file w' p = Some c"
proof -
  have p: "p \<noteq> []" and q: "resolve w p \<noteq> []"
    and w': "w' = w\<lparr>nodes := set_node (resolve w p) (File c) (nodes w)\<rparr>"
    using assms
    by (auto simp: open_write_def Let_def lookup_def split: if_splits option.splits node.splits)
  have "resolve w' p = resolve w p"
    by (simp add: w' resolve_def)
  then show ?thesis
    using p q by (simp add: read_file_def lookup_def w' map_of_set_node)
qed

lemma open_write_keeps_dir:
  assumes "open_write w p c = Inr w'" and "lookup w q = Some Dir"
  shows "lookup w' q = Some Dir"
proof (cases "q = []")
  case True
  then show ?thesis by (simp add: lookup_def)
next
  case False
  have w': "w' = w\<lparr>nodes := set_node (resolve w p) (File c) (nodes w)\<rparr>"
    and nd: "lookup w (resolve w p) \<noteq> Some Dir"
    using assms(1)
    by (auto simp: open_write_def Let_def split: if_splits option.splits node.splits)
  from nd assms(2) have "q \<noteq> resolve w p" by auto
  then show ?thesis
    using False assms(2) by (simp add: w' lookup_def set_node_def map_of_filter_other)
qed

lemma map_of_moved:
  "map_of (map (\<lambda>(k, n). (d @ drop (length s) k, n)) (filter (\<lambda>(k, n). prefix s k) ns)) d
     = map_of ns s"
proof (induction ns)
  case Nil
  then show ?case by simp
next
  case (Cons kn ns)
  obtain k n where kn: "kn = (k, n)" by (cases kn)
  show ?case
  proof (cases "prefix s k")
    case True
    then obtain r where r: "k = s @ r" by (auto simp: prefix_def)
    then show ?thesis using Cons True by (simp add: kn)
  next
    case False
    then have "k \<noteq> s" by auto
    then show ?thesis using Cons False by (simp add: kn)
  qed
qed

lemma os_rename_moves:
  assumes "os_rename w src dst = Inr w'"
  shows "cwd w' = cwd w \<and> lookup w' (resolve w dst) = lookup w (resolve w src)"
proof -
  define s where "s = resolve w src"
  define d where "d = resolve w dst"
  obtain ns where ns: "lookup w s = Some ns"
    using assms by (auto simp: os_rename_def Let_def s_def split: if_splits option.splits)
  show ?thesis
  proof (cases "s = d")
    case True
    then have "w' = w"
      using assms ns by (auto simp: os_rename_def Let_def s_def d_def split: if_splits)
    then show ?thesis using True by (simp add: s_def d_def)
  next
    case False
    have np: "\<not> prefix s d" and mv: "w' = move w s d"
      and droot: "d = [] \<longrightarrow> ns = Dir"
      using assms ns False
      by (auto simp: os_rename_def Let_def s_def d_def lookup_def
          split: if_splits option.splits node.splits prod.splits)
    from np have s: "s \<noteq> []" by auto
    with ns have m: "map_of (nodes w) s = Some ns" by (simp add: lookup_def)
    have "lookup w' d = Some ns"
    proof (cases "d = []")
      case True
      then show ?thesis using droot by (simp add: lookup_def)
    next
      case False
      then show ?thesis
        using m by (simp add: mv move_def lookup_def map_of_moved [of d s "nodes w"])
    qed
    moreover have "cwd w' = cwd w" by (simp add: mv move_def)
    ultimately show ?thesis using ns by (simp add: s_def d_def)
  qed
qed

lemma os_rename_dir:
  assumes "os_rename w src dst = Inr w'" and "is_dir w src"
  shows "is_dir w' dst"
proof -
  have "dst \<noteq> []"
    using assms(1) by (auto simp: os_rename_def split: if_splits)
  moreover have "resolve w' dst = resolve w dst"
    using os_rename_moves [OF assms(1)] by (simp add: resolve_def)
  ultimately show ?thesis
    using os_rename_moves [OF assms(1)] assms(2) by (simp add: is_dir_def)
qed

lemma write_status_keeps_dir:
  assumes "write_status self status info_msg w = Inr w1" and "is_dir w p"
  shows "is_dir w1 p"
proof -
  have "resolve w1 p = resolve w p"
    using write_status_frame [OF assms(1)] by (simp add: resolve_def)
  moreover have "lookup w1 (resolve w p) = Some Dir"
    using assms
    by (auto simp: write_status_def save_text_def is_dir_def dest: open_write_keeps_dir
        split: if_splits)
  ultimately show ?thesis using assms(2) by (simp add: is_dir_def)
qed

text \<open>
  C2, as amended. For an entity not yet finalized and an ASCII status label, a \<open>finish\<close>
  that renames the folder gives it the old path followed by an underscore and
  \<open>status.capitalize()\<close>, which is the label with its first character in upper case and all
  the others in lower case; the entity's path is that name, and where the old path was a
  directory the new path is one.
\<close>

theorem finish_appends_capitalized:
  assumes "is_ascii status" and "\<not> finalized self"
    and "finish status info_msg (self, w) = Inr (self', w')" and "finalized self'"
  shows "path self' = path self @ ''_'' @ capitalize status
    \<and> (is_dir w (path self) \<longrightarrow> is_dir w' (path self'))"
proof -
  obtain w1 where w1: "write_status self status info_msg w = Inr w1"
    using assms(2,3) by (auto simp: finish_unfinalized split: sum.splits)
  have rn: "os_rename w1 (path self) (path self @ ''_'' @ capitalize status) = Inr w'"
    and p: "path self' = path self @ ''_'' @ capitalize status"
    using assms(2,3,4) w1 by (auto simp: finish_unfinalized split: sum.splits)
  show ?thesis
    using p os_rename_dir [OF rn] write_status_keeps_dir [OF w1] by simp
qed

text \<open>
  C10. After a \<open>finish\<close> that returned with the entity not finalized (its rename failed),
  the entity is the one before the call, and a later \<open>finish\<close> is never a no-op: it runs
  the message step again and then attempts the rename again, with the new status; when the
  message is not empty and its file can be written, the file holds the new message.
\<close>

theorem finish_reruns_after_failure:
  assumes "finish s1 m1 (self, w) = Inr (self1, w1)" and "\<not> finalized self1"
  shows "self1 = self
    \<and> finish s2 m2 (self1, w1) \<noteq> Inr (self1, w1)
    \<and> finish s2 m2 (self1, w1) =
        (case write_status self1 s2 m2 w1 of
           Inl e \<Rightarrow> Inl e
         | Inr w2 \<Rightarrow>
             (case os_rename w2 (path self1) (path self1 @ ''_'' @ capitalize s2) of
                Inr w3 \<Rightarrow> Inr (self1\<lparr>path := path self1 @ ''_'' @ capitalize s2, finalized := True\<rparr>, w3)
              | Inl e \<Rightarrow> Inr (self1, w2\<lparr>stdout := stdout w2 @ [rename_error_line e]\<rparr>)))
    \<and> (\<forall>w2. m2 \<noteq> [] \<and> write_status self1 s2 m2 w1 = Inr w2
          \<longrightarrow> read_file w2 (get_path self1 (log_name s2)) = Some m2)"
proof -
  have "read_file w2 (get_path self1 (log_name s2)) = Some m2"
    if "m2 \<noteq> []" and "write_status self1 s2 m2 w1 = Inr w2" for w2
    using that by (simp add: write_status_def save_text_def open_write_read)
  then show ?thesis
    using finish_keeps_unfinalized [OF assms] finish_not_noop [OF assms(2)]
      finish_unfinalized [OF assms(2)]
    by blast
qed









text \<open>
  The theorem of C4 at the example: a second \<open>finish\<close>, with another status and message,
  changes nothing.
\<close>

theorem finish_twice_witness:
  "finish ''success'' ''done'' (example_folder, example_started) = Inr (example_done, example_finished)
   \<and> finalized example_done
   \<and> finish ''fail'' ''again'' (example_done, example_finished) = Inr (example_done, example_finished)"
proof -
  have h1: "finish ''success'' ''done'' (example_folder, example_started)
      = Inr (example_done, example_finished)"
    by code_simp
  have h2: "finalized example_done"
    by (simp add: example_done_def)
  show ?thesis
    using h1 h2 finish_twice [OF h1 h2, of "''fail''" "''again''"] by simp
qed

text \<open>
  The theorem of C2 at the example.
\<close>

theorem finish_appends_capitalized_witness:
  "is_ascii ''success'' \<and> \<not> finalized example_folder
   \<and> finish ''success'' ''done'' (example_folder, example_started) = Inr (example_done, example_finished)
   \<and> finalized example_done
   \<and> path example_done = path example_folder @ ''_'' @ capitalize ''success''
   \<and> is_dir example_started (path example_folder)
   \<and> is_dir example_finished (path example_done)"
proof -
  have h0: "is_ascii ''success''"
    by code_simp
  have h1: "\<not> finalized example_folder"
    by (simp add: example_folder_def)
  have h2: "finish ''success'' ''done'' (example_folder, example_started)
      = Inr (example_done, example_finished)"
    by code_simp
  have h3: "finalized example_done"
    by (simp add: example_done_def)
  have h4: "is_dir example_started (path example_folder)"
    by code_simp
  show ?thesis
    using h0 h1 h2 h3 h4 finish_appends_capitalized [OF h0 h1 h2 h3] by blast
qed

text \<open>
  C2, as stated, fails: with the status \<open>FAIL\<close> the folder gets the suffix \<open>_Fail\<close>,
  where the claim has \<open>_FAIL\<close>.
\<close>

theorem finish_suffix_counterexample:
  "finish ''FAIL'' [] (example_folder, example_started)
     = Inr (example_folder\<lparr>path := ''/results/2024-01-01_12-00-00_sim_Fail'', finalized := True\<rparr>,
            \<lparr>cwd = [''home''],
             nodes = [([''results'', ''2024-01-01_12-00-00_sim_Fail''], Dir),
                      ([''home''], Dir), ([''results''], Dir)],
             stdout = []\<rparr>)
   \<and> path example_folder @ spec_suffix ''FAIL'' = ''/results/2024-01-01_12-00-00_sim_FAIL''
   \<and> ''/results/2024-01-01_12-00-00_sim_Fail'' \<noteq> path example_folder @ spec_suffix ''FAIL''"
  by code_simp

text \<open>
  The theorem of C10 at the blocked example: after the failed call, a \<open>finish\<close> with the
  status \<open>fail\<close> and the message \<open>retry\<close> is not a no-op.
\<close>

theorem finish_reruns_after_failure_witness:
  "finish ''success'' [] (example_folder, example_blocked) = Inr (example_folder, example_logged)
   \<and> \<not> finalized example_folder
   \<and> finish ''fail'' ''retry'' (example_folder, example_logged) \<noteq> Inr (example_folder, example_logged)
   \<and> finish ''fail'' ''retry'' (example_folder, example_logged) =
        (case write_status example_folder ''fail'' ''retry'' example_logged of
           Inl e \<Rightarrow> Inl e
         | Inr w2 \<Rightarrow>
             (case os_rename w2 (path example_folder) (path example_folder @ ''_'' @ capitalize ''fail'') of
                Inr w3 \<Rightarrow> Inr (example_folder\<lparr>path := path example_folder @ ''_'' @ capitalize ''fail'',
                                   finalized := True\<rparr>, w3)
              | Inl e \<Rightarrow> Inr (example_folder, w2\<lparr>stdout := stdout w2 @ [rename_error_line e]\<rparr>)))"
proof -
  have h1: "finish ''success'' [] (example_folder, example_blocked) = Inr (example_folder, example_logged)"
    by code_simp
  have h2: "\<not> finalized example_folder"
    by (simp add: example_folder_def)
  show ?thesis
    using h1 h2 finish_reruns_after_failure [OF h1 h2, of "''fail''" "''retry''"] by blast
qed




end
